theory Spec2Isabelle
  imports Main "HOL-Library.Sublist"
begin

section \<open>JavaScript values used by the SDK\<close>

text \<open>
  A JavaScript string is a sequence of UTF-16 code units; a code unit is modelled by its
  number. \<open>js\<close> writes a literal of the source.
\<close>

type_synonym jsstring = "nat list"

definition js :: "string \<Rightarrow> jsstring" where
  "js s = map of_char s"

text \<open>
  The values \<open>JSON.parse\<close> and \<open>response.json()\<close> produce. An object is the list of its
  own properties (keys distinct, as in a parsed object). The SDK never computes with a
  number: it only tests one for truthiness and converts one to a string, so a number is
  given by the text that conversion yields (\<open>5\<close>, \<open>1.5\<close>, \<open>1e+21\<close>). That text
  determines the number up to the sign of zero, which the conversion drops. The
  JavaScript value \<open>undefined\<close> is \<open>None\<close> of \<open>json option\<close>.
\<close>

datatype json =
    JNull
  | JBool bool
  | JNum jsstring
  | JStr jsstring
  | JArr "json list"
  | JObj "(jsstring \<times> json) list"

text \<open>
  \<open>v.k\<close> on a receiver that is neither \<open>null\<close> nor \<open>undefined\<close>, for the keys the SDK
  reads (\<open>error\<close>, \<open>message\<close>, \<open>type\<close>, \<open>details\<close>): only an object can own them, and no
  prototype defines them.
\<close>

fun get_prop :: "json \<Rightarrow> jsstring \<Rightarrow> json option" where
  "get_prop (JObj kvs) k = map_of kvs k"
| "get_prop _ k = None"

text \<open>JavaScript truthiness, as the operator \<open>||\<close> tests it.\<close>

fun truthy :: "json \<Rightarrow> bool" where
  "truthy JNull = False"
| "truthy (JBool b) = b"
| "truthy (JNum n) = (n \<noteq> js ''0'' \<and> n \<noteq> js ''NaN'')"
| "truthy (JStr s) = (s \<noteq> [])"
| "truthy (JArr _) = True"
| "truthy (JObj _) = True"

text \<open>The decimal digits of a status code, as a template literal prints an integer.\<close>

fun show_nat :: "nat \<Rightarrow> jsstring" where
  "show_nat n = (if n < 10 then [48 + n] else show_nat (n div 10) @ [48 + n mod 10])"

declare show_nat.simps [simp del]

text \<open>
  The conversion to a string that \<open>Error\<close> applies to its message; \<open>None\<close> when the
  conversion throws a \<open>TypeError\<close>. An array joins the conversions of its elements with
  commas, a \<open>null\<close> element giving the empty text. An object gives \<open>[object Object]\<close>,
  unless it owns a property \<open>toString\<close>: a parsed value is never callable, the inherited
  \<open>valueOf\<close> returns the object itself (an own \<open>valueOf\<close> is not callable either), and
  the conversion to a primitive fails.
\<close>

fun to_string :: "json \<Rightarrow> jsstring option"
  and join_strings :: "json list \<Rightarrow> jsstring option" where
  "to_string JNull = Some (js ''null'')"
| "to_string (JBool b) = Some (if b then js ''true'' else js ''false'')"
| "to_string (JNum n) = Some n"
| "to_string (JStr s) = Some s"
| "to_string (JArr xs) = join_strings xs"
| "to_string (JObj kvs) =
     (case map_of kvs (js ''toString'') of
        None \<Rightarrow> Some (js ''[object Object]'')
      | Some _ \<Rightarrow> None)"
| "join_strings [] = Some []"
| "join_strings (x # xs) =
     (case (if x = JNull then Some [] else to_string x) of
        None \<Rightarrow> None
      | Some a \<Rightarrow>
          if xs = [] then Some a
          else (case join_strings xs of None \<Rightarrow> None | Some b \<Rightarrow> Some (a @ js '','' @ b)))"

section \<open>Error types\<close>

datatype error_class =
  KushRouterError | AuthenticationError | InsufficientCreditsError | RateLimitError

text \<open>
  The fields of a \<open>KushRouterError\<close>. \<open>message\<close> is the text \<open>Error\<close> stores: the string
  form of the value it is given. \<open>name\<close> is the class of the object, which is what
  \<open>instanceof\<close> tests. \<open>status\<close>, \<open>code\<close> and \<open>details\<close> are stored as given.
\<close>

record kush_error =
  name :: error_class
  message :: jsstring
  status :: "nat option"
  code :: "json option"
  details :: "json option"

text \<open>
  The constructors; \<open>None\<close> when \<open>super(message)\<close> throws the \<open>TypeError\<close> of a message
  that has no string form. A subclass calls the constructor of \<open>KushRouterError\<close> and
  then sets its own name.
\<close>

definition new_KushRouterError ::
  "json \<Rightarrow> nat option \<Rightarrow> json option \<Rightarrow> json option \<Rightarrow> kush_error option" where
  "new_KushRouterError m s c d =
     (case to_string m of
        None \<Rightarrow> None
      | Some text \<Rightarrow>
          Some \<lparr>name = KushRouterError, message = text, status = s, code = c, details = d\<rparr>)"

text \<open>A default parameter value replaces \<open>undefined\<close> only.\<close>

definition new_AuthenticationError :: "json option \<Rightarrow> kush_error option" where
  "new_AuthenticationError m =
     map_option (\<lambda>k. k\<lparr>name := AuthenticationError\<rparr>)
       (new_KushRouterError
          (case m of None \<Rightarrow> JStr (js ''Invalid API key'') | Some v \<Rightarrow> v)
          (Some 401) (Some (JStr (js ''authentication_error''))) None)"

definition new_InsufficientCreditsError :: "json option \<Rightarrow> json option \<Rightarrow> kush_error option" where
  "new_InsufficientCreditsError m d =
     map_option (\<lambda>k. k\<lparr>name := InsufficientCreditsError\<rparr>)
       (new_KushRouterError
          (case m of None \<Rightarrow> JStr (js ''Insufficient credits'') | Some v \<Rightarrow> v)
          (Some 402) (Some (JStr (js ''insufficient_credits''))) d)"

definition new_RateLimitError :: "json option \<Rightarrow> kush_error option" where
  "new_RateLimitError m =
     map_option (\<lambda>k. k\<lparr>name := RateLimitError\<rparr>)
       (new_KushRouterError
          (case m of None \<Rightarrow> JStr (js ''Rate limit exceeded'') | Some v \<Rightarrow> v)
          (Some 429) (Some (JStr (js ''rate_limit_exceeded''))) None)"

text \<open>
  What a \<open>throw\<close> inside \<open>makeRequest\<close> can carry: an SDK error, the \<open>TypeError\<close> of a
  property read on \<open>null\<close> or of a message without a string form, the reason \<open>fetch\<close>
  rejected with (an abort after the timeout, a network failure), or \<open>undefined\<close>
  (\<open>lastError\<close> never assigned).
\<close>

datatype 'e thrown =
    Kush kush_error
  | TypeError
  | FetchRejected 'e
  | ThrownUndefined

text \<open>\<open>throw new E(...)\<close>: the error built, or the \<open>TypeError\<close> its constructor throws.\<close>

definition throw_new :: "kush_error option \<Rightarrow> 'e thrown" where
  "throw_new built = (case built of None \<Rightarrow> TypeError | Some k \<Rightarrow> Kush k)"

section \<open>One HTTP exchange\<close>

text \<open>
  A response as \<open>makeRequest\<close> reads it: its status and what \<open>response.json()\<close> gives
  (\<open>None\<close> when that promise rejects, the body not being JSON). A \<open>fetch\<close> that rejects,
  as it does when the timeout aborts it or the network fails, carries its reason.
\<close>

datatype response = Response (status_of: nat) (json_of: "json option")

datatype 'e fetch_result = Rejected 'e | Resolved response

definition ok :: "response \<Rightarrow> bool" where
  "ok r = (200 \<le> status_of r \<and> status_of r \<le> 299)"

text \<open>\<open>await response.json().catch(() => ({}))\<close>\<close>

definition errorData_of :: "response \<Rightarrow> json" where
  "errorData_of r = (case json_of r of None \<Rightarrow> JObj [] | Some j \<Rightarrow> j)"

text \<open>
  \<open>errorData.error?.k\<close>: reading \<open>error\<close> on \<open>null\<close> throws; the optional chain gives
  \<open>undefined\<close> when \<open>error\<close> is \<open>null\<close> or \<open>undefined\<close>.
\<close>

definition error_field :: "json \<Rightarrow> jsstring \<Rightarrow> 'e thrown + json option" where
  "error_field errorData k =
     (if errorData = JNull then Inl TypeError
      else case get_prop errorData (js ''error'') of
             None \<Rightarrow> Inr None
           | Some JNull \<Rightarrow> Inr None
           | Some e \<Rightarrow> Inr (get_prop e k))"

text \<open>
  The \<open>switch (response.status)\<close> of \<open>makeRequest\<close> apart from the retry of case 429: the
  value each case throws. Arguments are evaluated left to right and before the
  constructor runs, so the first property read on a \<open>null\<close> body throws before any error
  object is built.
\<close>

definition classify :: "nat \<Rightarrow> json \<Rightarrow> 'e thrown" where
  "classify st errorData =
     (if st = 401 then
        (case error_field errorData (js ''message'') of
           Inl t \<Rightarrow> t
         | Inr m \<Rightarrow> throw_new (new_AuthenticationError m))
      else if st = 402 then
        (case error_field errorData (js ''message'') of
           Inl t \<Rightarrow> t
         | Inr m \<Rightarrow>
             (case error_field errorData (js ''details'') of
                Inl t \<Rightarrow> t
              | Inr d \<Rightarrow> throw_new (new_InsufficientCreditsError m d)))
      else if st = 429 then
        (case error_field errorData (js ''message'') of
           Inl t \<Rightarrow> t
         | Inr m \<Rightarrow> throw_new (new_RateLimitError m))
      else
        (case error_field errorData (js ''message'') of
           Inl t \<Rightarrow> t
         | Inr m \<Rightarrow>
             (case error_field errorData (js ''type'') of
                Inl t \<Rightarrow> t
              | Inr ty \<Rightarrow>
                  throw_new (new_KushRouterError
                    (case m of
                       None \<Rightarrow> JStr (js ''HTTP '' @ show_nat st)
                     | Some v \<Rightarrow> if truthy v then v else JStr (js ''HTTP '' @ show_nat st))
                    (Some st) ty None))))"

text \<open>
  For stating what an error carries: the member \<open>k\<close> of the body's \<open>error\<close> object,
  when the body is an object whose \<open>error\<close> is an object that has \<open>k\<close>.
\<close>

fun nested :: "json \<Rightarrow> jsstring \<Rightarrow> json option" where
  "nested (JObj kvs) k =
     (case map_of kvs (js ''error'') of Some (JObj evs) \<Rightarrow> map_of evs k | _ \<Rightarrow> None)"
| "nested _ k = None"

definition thrown_code :: "'e thrown \<Rightarrow> json option" where
  "thrown_code t = (case t of Kush k \<Rightarrow> code k | _ \<Rightarrow> None)"

text \<open>
  The class of error a status stands for, its default message, and the value that
  becomes the message: the body's nested error message when it is defined (for a plain
  error: when it is truthy), the default otherwise.
\<close>

definition kind_of :: "nat \<Rightarrow> error_class" where
  "kind_of st =
     (if st = 401 then AuthenticationError
      else if st = 402 then InsufficientCreditsError
      else if st = 429 then RateLimitError
      else KushRouterError)"

definition default_message :: "nat \<Rightarrow> jsstring" where
  "default_message st =
     (if st = 401 then js ''Invalid API key''
      else if st = 402 then js ''Insufficient credits''
      else if st = 429 then js ''Rate limit exceeded''
      else js ''HTTP '' @ show_nat st)"

definition message_value :: "nat \<Rightarrow> json \<Rightarrow> json" where
  "message_value st errorData =
     (case nested errorData (js ''message'') of
        None \<Rightarrow> JStr (default_message st)
      | Some v \<Rightarrow>
          if st = 401 \<or> st = 402 \<or> st = 429 \<or> truthy v then v
          else JStr (default_message st))"

section \<open>The retry loop of makeRequest\<close>

text \<open>What the loop does that a caller or a test clock can observe, in order.\<close>

datatype effect = Fetch int | Sleep int

text \<open>
  The \<open>try\<close> block of one iteration: it returns the response, or sleeps and continues
  with the next iteration (status 429 with attempts left), or throws into the \<open>catch\<close>.
\<close>

datatype 'e outcome = Return response | SleepContinue int | Throw "'e thrown"

definition try_block :: "int \<Rightarrow> int \<Rightarrow> 'e fetch_result \<Rightarrow> 'e outcome" where
  "try_block retries attempt fr =
     (case fr of
        Rejected e \<Rightarrow> Throw (FetchRejected e)
      | Resolved r \<Rightarrow>
          if ok r then Return r
          else if status_of r = 429 \<and> attempt < retries
            then SleepContinue (2 ^ nat attempt * 1000)
          else Throw (classify (status_of r) (errorData_of r)))"

definition no_retry :: "'e thrown \<Rightarrow> bool" where
  "no_retry err =
     (case err of
        Kush k \<Rightarrow> name k = AuthenticationError \<or> name k = InsufficientCreditsError
      | _ \<Rightarrow> False)"

definition after :: "effect list \<Rightarrow> 'a \<times> effect list \<Rightarrow> 'a \<times> effect list" where
  "after es r = (fst r, es @ snd r)"

text \<open>
  \<open>for (let attempt = 1; attempt <= this.retries; attempt++)\<close>, from a given \<open>attempt\<close>
  on; \<open>fetch k\<close> is what the exchange of attempt \<open>k\<close> gives. The result is the response
  returned or the value thrown, with the effects in the order they happened.
\<close>

function makeRequest_loop ::
  "int \<Rightarrow> (int \<Rightarrow> 'e fetch_result) \<Rightarrow> int \<Rightarrow> 'e thrown option
     \<Rightarrow> ('e thrown + response) \<times> effect list" where
  "makeRequest_loop retries fetch attempt lastError =
     (if attempt \<le> retries then
        (case try_block retries attempt (fetch attempt) of
           Return r \<Rightarrow> (Inr r, [Fetch attempt])
         | SleepContinue delay \<Rightarrow>
             after [Fetch attempt, Sleep delay]
               (makeRequest_loop retries fetch (attempt + 1) lastError)
         | Throw err \<Rightarrow>
             if no_retry err then (Inl err, [Fetch attempt])
             else if attempt = retries then (Inl err, [Fetch attempt])
             else after [Fetch attempt, Sleep (1000 * attempt)]
                    (makeRequest_loop retries fetch (attempt + 1) (Some err)))
      else (Inl (case lastError of None \<Rightarrow> ThrownUndefined | Some e \<Rightarrow> e), []))"
  by pat_completeness auto
termination
  by (relation "measure (\<lambda>(retries, fetch, attempt, lastError). nat (retries + 1 - attempt))")
     auto

declare makeRequest_loop.simps [simp del]

section \<open>The client and the request it sends\<close>

text \<open>
  The fields of a \<open>KushRouterSDK\<close>. The constructor fixes \<open>baseURL\<close>, replaces an absent
  or zero \<open>timeout\<close> by 30000 and an absent or zero \<open>retries\<close> by 3 (\<open>config.retries || 3\<close>),
  and throws when the API key is empty.
\<close>

record sdk =
  baseURL :: jsstring
  apiKey :: jsstring
  timeout :: int
  retries :: int

datatype ctor_error = ApiKeyRequired

definition or_default :: "int option \<Rightarrow> int \<Rightarrow> int" where
  "or_default v d = (case v of None \<Rightarrow> d | Some n \<Rightarrow> if n = 0 then d else n)"

definition new_KushRouterSDK :: "jsstring \<Rightarrow> int option \<Rightarrow> int option \<Rightarrow> ctor_error + sdk" where
  "new_KushRouterSDK key cfg_timeout cfg_retries =
     (if key = [] then Inl ApiKeyRequired
      else Inr \<lparr>baseURL = js ''https://api.kushrouter.com'', apiKey = key,
                timeout = or_default cfg_timeout 30000,
                retries = or_default cfg_retries 3\<rparr>)"

definition joinUrl :: "jsstring \<Rightarrow> jsstring \<Rightarrow> jsstring" where
  "joinUrl base path =
     (let cleanBase = (if base \<noteq> [] \<and> last base = 47 then butlast base else base);
          cleanPath = (if prefix (js ''/'') path then path else js ''/'' @ path)
      in cleanBase @ cleanPath)"

text \<open>
  A request body is the text \<open>JSON.stringify\<close> made of a value, or a \<open>FormData\<close> object.
  Header names are the keys of a plain object, so they are compared as written.
\<close>

datatype 'f body = Json json | Form 'f

type_synonym headers = "jsstring \<rightharpoonup> jsstring"

record 'f request_init =
  init_method :: "jsstring option"
  init_body :: "'f body option"
  init_headers :: "headers option"

record 'f fetch_call =
  url :: jsstring
  call_method :: "jsstring option"
  call_body :: "'f body option"
  call_headers :: headers

text \<open>
  The \<open>headers\<close> object of \<open>makeRequest\<close>: a later spread overwrites an earlier key, and
  spreading \<open>undefined\<close> adds nothing.
\<close>

definition request_headers :: "sdk \<Rightarrow> headers option \<Rightarrow> bool \<Rightarrow> headers" where
  "request_headers this opt_headers useBearer =
     [js ''Content-Type'' \<mapsto> js ''application/json'']
     ++ (if useBearer then [js ''Authorization'' \<mapsto> js ''Bearer '' @ apiKey this]
         else [js ''x-api-key'' \<mapsto> apiKey this])
     ++ (case opt_headers of None \<Rightarrow> Map.empty | Some h \<Rightarrow> h)"

text \<open>What \<open>fetch\<close> is called with on every attempt: \<open>{...options, headers, signal}\<close>.\<close>

definition sent_request :: "sdk \<Rightarrow> jsstring \<Rightarrow> 'f request_init \<Rightarrow> bool \<Rightarrow> 'f fetch_call" where
  "sent_request this endpoint options useBearer =
     \<lparr>url = joinUrl (baseURL this) endpoint,
      call_method = init_method options,
      call_body = init_body options,
      call_headers = request_headers this (init_headers options) useBearer\<rparr>"

text \<open>
  \<open>makeRequest\<close>: \<open>fetch req k\<close> is what the exchange of attempt \<open>k\<close> for the request
  \<open>req\<close> gives.
\<close>

definition makeRequest ::
  "sdk \<Rightarrow> ('f fetch_call \<Rightarrow> int \<Rightarrow> 'e fetch_result) \<Rightarrow> jsstring \<Rightarrow> 'f request_init \<Rightarrow> bool
     \<Rightarrow> ('e thrown + response) \<times> effect list" where
  "makeRequest this fetch endpoint options useBearer =
     makeRequest_loop (retries this)
       (fetch (sent_request this endpoint options useBearer)) 1 None"

text \<open>
  For stating the retry properties. A generic failure of an attempt is a rejected
  \<open>fetch\<close> or a response whose status is neither a success nor 401, 402 or 429;
  \<open>failure_of\<close> is the error such an attempt ends in.
\<close>

definition generic_status :: "nat \<Rightarrow> bool" where
  "generic_status st =
     (\<not> (200 \<le> st \<and> st \<le> 299) \<and> st \<noteq> 401 \<and> st \<noteq> 402 \<and> st \<noteq> 429)"

definition generic_failure :: "'e fetch_result \<Rightarrow> bool" where
  "generic_failure fr =
     (case fr of Rejected e \<Rightarrow> True | Resolved r \<Rightarrow> generic_status (status_of r))"

definition failure_of :: "'e fetch_result \<Rightarrow> 'e thrown" where
  "failure_of fr =
     (case fr of
        Rejected e \<Rightarrow> FetchRejected e
      | Resolved r \<Rightarrow> classify (status_of r) (errorData_of r))"

text \<open>A client with the default settings and a JSON request, for the examples.\<close>

definition example_client :: sdk where
  "example_client =
     \<lparr>baseURL = js ''https://api.kushrouter.com'', apiKey = js ''key'',
      timeout = 30000, retries = 3\<rparr>"

definition example_options :: "unit request_init" where
  "example_options =
     \<lparr>init_method = Some (js ''POST''), init_body = Some (Json (JObj [])),
      init_headers = None\<rparr>"

subsection \<open>files.upload\<close>

datatype 'f upload_content = StringContent jsstring | FormDataContent 'f

text \<open>
  The options \<open>files.upload\<close> hands to \<open>makeRequest\<close>. \<open>filename || 'batch.jsonl'\<close> replaces
  an absent or empty name.
\<close>

definition upload_options :: "'f upload_content \<Rightarrow> jsstring option \<Rightarrow> 'f request_init" where
  "upload_options content filename =
     (case content of
        StringContent s \<Rightarrow>
          \<lparr>init_method = Some (js ''POST''),
           init_body = Some (Json (JObj
             [(js ''content'', JStr s),
              (js ''filename'',
                 JStr (case filename of
                         None \<Rightarrow> js ''batch.jsonl''
                       | Some n \<Rightarrow> if n = [] then js ''batch.jsonl'' else n))])),
           init_headers = Some [js ''Content-Type'' \<mapsto> js ''application/json'']\<rparr>
      | FormDataContent f \<Rightarrow>
          \<lparr>init_method = Some (js ''POST''),
           init_body = Some (Form f),
           init_headers = Some Map.empty\<rparr>)"

definition files_upload ::
  "sdk \<Rightarrow> ('f fetch_call \<Rightarrow> int \<Rightarrow> 'e fetch_result) \<Rightarrow> 'f upload_content \<Rightarrow> jsstring option
     \<Rightarrow> ('e thrown + response) \<times> effect list" where
  "files_upload this fetch content filename =
     makeRequest this fetch (js ''/api/v1/files'') (upload_options content filename) False"

text \<open>The request \<open>files.upload\<close> makes the transport send.\<close>

definition upload_request :: "sdk \<Rightarrow> 'f upload_content \<Rightarrow> jsstring option \<Rightarrow> 'f fetch_call" where
  "upload_request this content filename =
     sent_request this (js ''/api/v1/files'') (upload_options content filename) False"

section \<open>Field normalisation\<close>

text \<open>
  A property value of a request object: \<open>undefined\<close>, \<open>null\<close> or anything else. An object
  maps the keys it owns to their values; a key can be present with the value
  \<open>undefined\<close>.
\<close>

datatype 'v jsval = Undefined | Null | Val 'v

type_synonym 'v obj = "jsstring \<rightharpoonup> 'v jsval"

text \<open>
  The argument \<open>req: any\<close>: a value that is falsy or whose \<open>typeof\<close> is not \<open>'object'\<close>,
  or an object.
\<close>

datatype ('p, 'v) request = NotObject 'p | Object "'v obj"

text \<open>\<open>out.k\<close>: a missing key reads as \<open>undefined\<close>.\<close>

definition get :: "'v obj \<Rightarrow> jsstring \<Rightarrow> 'v jsval" where
  "get out k = (case out k of None \<Rightarrow> Undefined | Some v \<Rightarrow> v)"

text \<open>\<open>a ?? b\<close>\<close>

definition nullish :: "'v jsval \<Rightarrow> 'v jsval \<Rightarrow> 'v jsval" where
  "nullish a b = (case a of Undefined \<Rightarrow> b | Null \<Rightarrow> b | Val _ \<Rightarrow> a)"

text \<open>
  One block of a normaliser:
  \<open>if (out.camel !== undefined) { out.snake = out.snake ?? out.camel; delete out.camel; }\<close>
\<close>

definition rename_field :: "jsstring \<Rightarrow> jsstring \<Rightarrow> 'v obj \<Rightarrow> 'v obj" where
  "rename_field camel snake out =
     (if get out camel \<noteq> Undefined
      then (out(snake \<mapsto> nullish (get out snake) (get out camel)))(camel := None)
      else out)"

definition unified_fields :: "(jsstring \<times> jsstring) list" where
  "unified_fields =
     [(js ''maxTokens'', js ''max_tokens''),
      (js ''toolChoice'', js ''tool_choice''),
      (js ''timeoutMs'', js ''timeout_ms''),
      (js ''promptCache'', js ''prompt_cache''),
      (js ''reasoningEffort'', js ''reasoning_effort''),
      (js ''mcpServers'', js ''mcp_servers'')]"

definition openai_fields :: "(jsstring \<times> jsstring) list" where
  "openai_fields =
     [(js ''maxTokens'', js ''max_tokens''),
      (js ''toolChoice'', js ''tool_choice''),
      (js ''reasoningEffort'', js ''reasoning_effort''),
      (js ''responseFormat'', js ''response_format''),
      (js ''timeoutMs'', js ''timeout_ms''),
      (js ''mcpServers'', js ''mcp_servers'')]"

text \<open>The blocks of a normaliser run in the order of its list, on the copy \<open>{...req}\<close>.\<close>

fun rename_all :: "(jsstring \<times> jsstring) list \<Rightarrow> 'v obj \<Rightarrow> 'v obj" where
  "rename_all [] out = out"
| "rename_all ((camel, snake) # fs) out = rename_all fs (rename_field camel snake out)"

definition normalizeUnifiedRequest :: "('p, 'v) request \<Rightarrow> ('p, 'v) request" where
  "normalizeUnifiedRequest req =
     (case req of NotObject p \<Rightarrow> NotObject p | Object r \<Rightarrow> Object (rename_all unified_fields r))"

definition normalizeOpenAIRequest :: "('p, 'v) request \<Rightarrow> ('p, 'v) request" where
  "normalizeOpenAIRequest req =
     (case req of NotObject p \<Rightarrow> NotObject p | Object r \<Rightarrow> Object (rename_all openai_fields r))"

text \<open>For stating what a normaliser leaves under a key: the property of the result, if any.\<close>

definition field_of :: "('p, 'v) request \<Rightarrow> jsstring \<Rightarrow> 'v jsval option" where
  "field_of req k = (case req of NotObject p \<Rightarrow> None | Object r \<Rightarrow> r k)"

section \<open>The stream decoder\<close>

text \<open>
  The read loop of \<open>streamUnified\<close>, \<open>streamOpenAI\<close> and \<open>streamAnthropic\<close> (the three are
  the same). A chunk is the text \<open>decoder.decode(value, { stream: true })\<close> returns for
  one read (for ASCII bytes, the bytes themselves); the list of chunks is everything the
  reader delivers before it reports \<open>done\<close>. \<open>parse\<close> is \<open>JSON.parse\<close>, \<open>None\<close> when it
  throws. The result lists what the generator yields to a consumer that reads to the
  end.
\<close>

text \<open>\<open>s.split('\n')\<close>, with the line being collected in \<open>cur\<close>.\<close>

fun split_acc :: "jsstring \<Rightarrow> jsstring \<Rightarrow> jsstring list" where
  "split_acc cur [] = [cur]"
| "split_acc cur (c # cs) = (if c = 10 then cur # split_acc [] cs else split_acc (cur @ [c]) cs)"

definition split_nl :: "jsstring \<Rightarrow> jsstring list" where
  "split_nl s = split_acc [] s"

text \<open>
  The code units \<open>trim\<close> removes: white space (tab, vertical tab, form feed, space,
  no-break space, the byte order mark and the other space separators) and line
  terminators.
\<close>

definition is_space :: "nat \<Rightarrow> bool" where
  "is_space c =
     (c = 9 \<or> c = 10 \<or> c = 11 \<or> c = 12 \<or> c = 13 \<or> c = 32 \<or> c = 160 \<or> c = 5760
      \<or> (8192 \<le> c \<and> c \<le> 8202) \<or> c = 8232 \<or> c = 8233 \<or> c = 8239 \<or> c = 8287
      \<or> c = 12288 \<or> c = 65279)"

definition trim :: "jsstring \<Rightarrow> jsstring" where
  "trim s = rev (dropWhile is_space (rev (dropWhile is_space s)))"

text \<open>
  The \<open>for (const line of lines)\<close> loop: the frames it yields, and whether it returned
  at a \<open>[DONE]\<close> line.
\<close>

fun process_lines :: "(jsstring \<Rightarrow> 'v option) \<Rightarrow> jsstring list \<Rightarrow> 'v list \<times> bool" where
  "process_lines parse [] = ([], False)"
| "process_lines parse (line # rest) =
     (if prefix (js ''data: '') line then
        (let data = trim (drop 6 line) in
         if data = js ''[DONE]'' then ([], True)
         else (case parse data of
                 Some parsed \<Rightarrow>
                   (parsed # fst (process_lines parse rest), snd (process_lines parse rest))
               | None \<Rightarrow> process_lines parse rest))
      else process_lines parse rest)"

text \<open>How the generator finished: by \<open>return\<close> at \<open>[DONE]\<close>, or by \<open>break\<close> when the reader is done.\<close>

datatype ending = SawDone | SourceEnded

text \<open>
  \<open>while (true)\<close>: one iteration per chunk read, \<open>buffer\<close> carried along;
  \<open>lines.pop() || ''\<close> is the last element of the split, or \<open>''\<close> had the split none.
\<close>

fun read_loop :: "(jsstring \<Rightarrow> 'v option) \<Rightarrow> jsstring \<Rightarrow> jsstring list \<Rightarrow> 'v list \<times> ending" where
  "read_loop parse buffer [] = ([], SourceEnded)"
| "read_loop parse buffer (chunk # chunks) =
     (let lines = split_nl (buffer @ chunk);
          buffer' = (if lines = [] then [] else last lines);
          (frames, done) = process_lines parse (butlast lines)
      in if done then (frames, SawDone)
         else (frames @ fst (read_loop parse buffer' chunks),
               snd (read_loop parse buffer' chunks)))"

definition stream_frames :: "(jsstring \<Rightarrow> 'v option) \<Rightarrow> jsstring list \<Rightarrow> 'v list \<times> ending" where
  "stream_frames parse chunks = read_loop parse [] chunks"

text \<open>
  For stating the decoder's properties: the lines of a text that a newline completes
  (all elements of the split but the last), whether a line is the \<open>[DONE]\<close> sentinel,
  and the frame a line stands for, if any.
\<close>

definition complete_lines :: "jsstring \<Rightarrow> jsstring list" where
  "complete_lines s = butlast (split_nl s)"

definition done_line :: "jsstring \<Rightarrow> bool" where
  "done_line line = (prefix (js ''data: '') line \<and> trim (drop 6 line) = js ''[DONE]'')"

definition frame_of :: "(jsstring \<Rightarrow> 'v option) \<Rightarrow> jsstring \<Rightarrow> 'v option" where
  "frame_of parse line =
     (if prefix (js ''data: '') line then parse (trim (drop 6 line)) else None)"

definition finish :: "'v list \<times> bool \<Rightarrow> 'v list \<times> ending" where
  "finish r = (fst r, if snd r then SawDone else SourceEnded)"

text \<open>The input of the decoding example: two frames and the sentinel.\<close>

definition sse_example :: jsstring where
  "sse_example =
     js ''data: {\"a\":1}\<newline>\<newline>data: {\"a\":2}\<newline>\<newline>data: [DONE]\<newline>\<newline>''"

text \<open>A stand-in for \<open>JSON.parse\<close> that knows the two frames of the example and rejects the rest.\<close>

definition example_parse :: "jsstring \<Rightarrow> json option" where
  "example_parse s =
     (if s = js ''{\"a\":1}'' then Some (JObj [(js ''a'', JNum (js ''1''))])
      else if s = js ''{\"a\":2}'' then Some (JObj [(js ''a'', JNum (js ''2''))])
      else None)"

section \<open>Error classification\<close>

lemma error_field_nested:
  "errorData \<noteq> JNull \<Longrightarrow> error_field errorData k = Inr (nested errorData k)"
  by (cases errorData) (auto simp: error_field_def split: option.splits json.splits)

lemma classify_not_null:
  assumes "errorData \<noteq> JNull"
  shows "(classify st errorData :: 'e thrown) =
     throw_new
       (if st = 401 then new_AuthenticationError (nested errorData (js ''message''))
        else if st = 402 then
          new_InsufficientCreditsError (nested errorData (js ''message''))
            (nested errorData (js ''details''))
        else if st = 429 then new_RateLimitError (nested errorData (js ''message''))
        else new_KushRouterError
               (case nested errorData (js ''message'') of
                  None \<Rightarrow> JStr (js ''HTTP '' @ show_nat st)
                | Some v \<Rightarrow> if truthy v then v else JStr (js ''HTTP '' @ show_nat st))
               (Some st) (nested errorData (js ''type'')) None)"
  by (simp add: classify_def error_field_nested[OF assms])

lemma errorData_not_null: "b \<noteq> Some JNull \<Longrightarrow> errorData_of (Response st b) \<noteq> JNull"
  by (cases b) (simp_all add: errorData_of_def)

text \<open>A body that is the JSON value \<open>null\<close> makes every case of the switch throw a \<open>TypeError\<close>.\<close>

lemma classify_null_body: "classify st JNull = TypeError"
  by (simp add: classify_def error_field_def)

text \<open>The message of a body without a nested message is the default one.\<close>

lemma message_value_text:
  "message_value st errorData =
     (if st = 401 then
        (case nested errorData (js ''message'') of
           None \<Rightarrow> JStr (js ''Invalid API key'') | Some v \<Rightarrow> v)
      else if st = 402 then
        (case nested errorData (js ''message'') of
           None \<Rightarrow> JStr (js ''Insufficient credits'') | Some v \<Rightarrow> v)
      else if st = 429 then
        (case nested errorData (js ''message'') of
           None \<Rightarrow> JStr (js ''Rate limit exceeded'') | Some v \<Rightarrow> v)
      else
        (case nested errorData (js ''message'') of
           None \<Rightarrow> JStr (js ''HTTP '' @ show_nat st)
         | Some v \<Rightarrow> if truthy v then v else JStr (js ''HTTP '' @ show_nat st)))"
  by (simp add: message_value_def default_message_def split: option.splits)

text \<open>
  Whatever the body, a status is thrown as a \<open>TypeError\<close> or as an error of the class
  and status code that belong to it.
\<close>

lemma classify_cases:
  "(classify st errorData :: 'e thrown) = TypeError
   \<or> (\<exists>k. (classify st errorData :: 'e thrown) = Kush k
           \<and> name k = kind_of st \<and> status k = Some st)"
proof (cases "errorData = JNull")
  case True
  then show ?thesis by (simp add: classify_null_body)
next
  case False
  show ?thesis
    by (simp add: classify_not_null[OF False] throw_new_def kind_of_def
          new_AuthenticationError_def new_InsufficientCreditsError_def new_RateLimitError_def
          new_KushRouterError_def split: option.splits)
qed

lemma classify_Kush:
  assumes "(classify st errorData :: 'e thrown) = Kush k"
  shows "name k = kind_of st" and "status k = Some st"
  using classify_cases[of st errorData, where ?'e = 'e] assms by auto

text \<open>
  Claim C5, as the code has it. For every status and every parsed error body other than
  the JSON value \<open>null\<close> whose message has a string form: 401 gives an
  AuthenticationError, 402 an InsufficientCreditsError carrying the body's details, 429
  a RateLimitError, each with the string form of the body's nested error message when
  it has one (the message itself when it is a string) and the default message
  otherwise; any other status gives a plain KushRouterError whose message is the string
  form of the body's nested message when that is truthy and \<open>HTTP\<close> followed by the
  status otherwise. Only the plain error carries the body's error type as its code; the
  three special kinds carry the fixed codes \<open>authentication_error\<close>,
  \<open>insufficient_credits\<close> and \<open>rate_limit_exceeded\<close>.
\<close>

theorem classify_kinds:
  assumes "errorData \<noteq> JNull"
      and "to_string (message_value st errorData) = Some text"
  shows "(classify st errorData :: 'e thrown) =
     Kush (if st = 401 then
             \<lparr>name = AuthenticationError,
              message = text,
              status = Some 401,
              code = Some (JStr (js ''authentication_error'')),
              details = None\<rparr>
           else if st = 402 then
             \<lparr>name = InsufficientCreditsError,
              message = text,
              status = Some 402,
              code = Some (JStr (js ''insufficient_credits'')),
              details = nested errorData (js ''details'')\<rparr>
           else if st = 429 then
             \<lparr>name = RateLimitError,
              message = text,
              status = Some 429,
              code = Some (JStr (js ''rate_limit_exceeded'')),
              details = None\<rparr>
           else
             \<lparr>name = KushRouterError,
              message = text,
              status = Some st,
              code = nested errorData (js ''type''),
              details = None\<rparr>)"
  using assms(2)
  by (auto simp add: classify_not_null[OF assms(1)] message_value_text throw_new_def
        new_AuthenticationError_def new_InsufficientCreditsError_def new_RateLimitError_def
        new_KushRouterError_def)

text \<open>
  Witness for C5: status 503 with a body that carries a message and a type.
\<close>

theorem classify_kinds_witness:
  "JObj [(js ''error'', JObj [(js ''message'', JStr (js ''overloaded'')),
                              (js ''type'', JStr (js ''server_error''))])] \<noteq> JNull
   \<and> to_string (message_value 503
        (JObj [(js ''error'', JObj [(js ''message'', JStr (js ''overloaded'')),
                                    (js ''type'', JStr (js ''server_error''))])]))
      = Some (js ''overloaded'')
   \<and> (classify 503
         (JObj [(js ''error'', JObj [(js ''message'', JStr (js ''overloaded'')),
                                     (js ''type'', JStr (js ''server_error''))])])
        :: unit thrown) =
       Kush \<lparr>name = KushRouterError, message = js ''overloaded'',
             status = Some 503, code = Some (JStr (js ''server_error'')),
             details = None\<rparr>"
  using classify_kinds
    [of "JObj [(js ''error'', JObj [(js ''message'', JStr (js ''overloaded'')),
                                    (js ''type'', JStr (js ''server_error''))])]" 503
        "js ''overloaded''",
     where ?'e = unit]
  by (simp add: message_value_def js_def)

text \<open>
  The message of an error is the string form of what the body gave: a \<open>null\<close> message
  under status 401 is the text \<open>null\<close>, a number is its digits, an object is
  \<open>[object Object]\<close>.
\<close>

lemma message_string_forms:
  "(classify 401 (JObj [(js ''error'', JObj [(js ''message'', JNull)])]) :: unit thrown) =
     Kush \<lparr>name = AuthenticationError, message = js ''null'', status = Some 401,
           code = Some (JStr (js ''authentication_error'')), details = None\<rparr>"
  "(classify 500 (JObj [(js ''error'', JObj [(js ''message'', JNum (js ''5''))])]) :: unit thrown) =
     Kush \<lparr>name = KushRouterError, message = js ''5'', status = Some 500,
           code = None, details = None\<rparr>"
  "(classify 500 (JObj [(js ''error'', JObj [(js ''message'', JObj [])])]) :: unit thrown) =
     Kush \<lparr>name = KushRouterError, message = js ''[object Object]'', status = Some 500,
           code = None, details = None\<rparr>"
  by (simp_all add: classify_def error_field_def throw_new_def new_AuthenticationError_def
        new_KushRouterError_def js_def)

text \<open>
  A message that owns a \<open>toString\<close> property has no string form: the constructor
  throws a \<open>TypeError\<close> and no error of the status's kind is built.
\<close>

lemma message_without_string_form:
  "(classify 401
      (JObj [(js ''error'',
              JObj [(js ''message'', JObj [(js ''toString'', JNum (js ''1''))])])])
     :: unit thrown) = TypeError"
  by (simp add: classify_def error_field_def throw_new_def new_AuthenticationError_def
        new_KushRouterError_def js_def)

text \<open>
  Counterexample to C5 as stated: a 401 whose body names the provider's error type
  \<open>invalid_api_key\<close> is raised with the code \<open>authentication_error\<close>, not with the
  provider's type.
\<close>

theorem classify_code_not_provider_type:
  "nested (JObj [(js ''error'', JObj [(js ''type'', JStr (js ''invalid_api_key''))])])
     (js ''type'') = Some (JStr (js ''invalid_api_key''))
   \<and> thrown_code
        (classify 401 (JObj [(js ''error'', JObj [(js ''type'', JStr (js ''invalid_api_key''))])])
          :: unit thrown)
     = Some (JStr (js ''authentication_error''))
   \<and> JStr (js ''authentication_error'') \<noteq> JStr (js ''invalid_api_key'')"
  by (simp add: classify_def error_field_def thrown_code_def throw_new_def
        new_AuthenticationError_def new_KushRouterError_def js_def)

section \<open>Retry behaviour\<close>

lemma classify_generic_retried:
  "generic_status st \<Longrightarrow> \<not> no_retry (classify st errorData :: 'e thrown)"
  using classify_cases[of st errorData, where ?'e = 'e]
  by (auto simp: generic_status_def no_retry_def kind_of_def)

lemma try_block_generic:
  "generic_failure fr \<Longrightarrow> try_block r a fr = Throw (failure_of fr)"
  by (cases fr)
     (auto simp: generic_failure_def generic_status_def failure_of_def try_block_def ok_def)

lemma generic_retried:
  assumes "generic_failure fr"
  shows "\<not> no_retry (failure_of fr)"
proof (cases fr)
  case (Rejected e)
  then show ?thesis by (simp add: failure_of_def no_retry_def)
next
  case (Resolved r)
  with assms show ?thesis
    by (simp add: generic_failure_def failure_of_def classify_generic_retried)
qed

lemma no_retry_classify_429: "\<not> no_retry (classify 429 errorData :: 'e thrown)"
  using classify_cases[of 429 errorData, where ?'e = 'e]
  by (auto simp: no_retry_def kind_of_def)

text \<open>
  The rate-limit delays for any number of attempts: from attempt \<open>a\<close> on, with a 429 on
  every attempt up to the last one \<open>n\<close>, the loop sleeps \<open>2 ^ k * 1000\<close> ms after each
  attempt \<open>k < n\<close> and nothing else; the delay doubles with the attempt and has no bound.
\<close>

lemma rate_limit_effects:
  fixes fetch :: "int \<Rightarrow> 'e fetch_result"
  assumes "\<forall>k. a \<le> k \<and> k \<le> n \<longrightarrow> (\<exists>b. fetch k = Resolved (Response 429 b))"
      and "a \<le> n"
  shows "snd (makeRequest_loop n fetch a le) =
           concat (map (\<lambda>k. [Fetch k, Sleep (2 ^ nat k * 1000)]) [a..n - 1]) @ [Fetch n]"
  using assms
proof (induction n fetch a le rule: makeRequest_loop.induct)
  case (1 retries fetch attempt lastError)
  from "1.prems" obtain b where b: "fetch attempt = Resolved (Response 429 b)"
    by auto
  show ?case
  proof (cases "attempt < retries")
    case True
    then have tb: "try_block retries attempt (fetch attempt) =
                     SleepContinue (2 ^ nat attempt * 1000)"
      using b by (simp add: try_block_def ok_def)
    have ih: "snd (makeRequest_loop retries fetch (attempt + 1) lastError) =
                concat (map (\<lambda>k. [Fetch k, Sleep (2 ^ nat k * 1000)])
                  [attempt + 1..retries - 1]) @ [Fetch retries]"
      using "1.IH"(1)[OF _ tb] "1.prems" True by auto
    have up: "[attempt..retries - 1] = attempt # [attempt + 1..retries - 1]"
      using True by (simp add: upto_rec1)
    show ?thesis
      using True tb ih up by (subst makeRequest_loop.simps) (simp add: after_def)
  next
    case False
    with "1.prems" have eq: "attempt = retries"
      by simp
    have tb: "try_block retries attempt (fetch attempt) =
                Throw (classify 429 (errorData_of (Response 429 b)))"
      using b eq by (simp add: try_block_def ok_def)
    show ?thesis
      using eq tb by (subst makeRequest_loop.simps) (simp add: no_retry_classify_429)
  qed
qed

text \<open>A client built without a \<open>retries\<close> setting makes up to three attempts.\<close>

lemma default_retries: "new_KushRouterSDK key t None = Inr c \<Longrightarrow> retries c = 3"
  by (auto simp: new_KushRouterSDK_def or_default_def split: if_splits)

subsection \<open>Status 429\<close>

text \<open>
  With three attempts allowed and a 429 response on each, \<open>makeRequest\<close> makes exactly
  three attempts and sleeps 2000 ms after the first and 4000 ms after the second and
  nothing else, whatever the bodies; what it throws after the third attempt is what the
  third response is classified as.
\<close>

lemma rate_limit_three_attempts:
  fixes fetch :: "'f fetch_call \<Rightarrow> int \<Rightarrow> 'e fetch_result"
  assumes "retries this = 3"
      and "exchange = fetch (sent_request this endpoint options useBearer)"
      and "exchange 1 = Resolved (Response 429 b1)"
      and "exchange 2 = Resolved (Response 429 b2)"
      and "exchange 3 = Resolved (Response 429 b3)"
  shows "makeRequest this fetch endpoint options useBearer =
           (Inl (classify 429 (errorData_of (Response 429 b3))),
            [Fetch 1, Sleep 2000, Fetch 2, Sleep 4000, Fetch 3])"
  using assms
  by (simp add: makeRequest_def makeRequest_loop.simps try_block_def ok_def after_def
        no_retry_classify_429)

text \<open>
  When the third response is classified at all, the error thrown is a RateLimitError
  with status 429.
\<close>

lemma rate_limit_three_attempts_classified:
  fixes fetch :: "'f fetch_call \<Rightarrow> int \<Rightarrow> 'e fetch_result"
  assumes "retries this = 3"
      and "exchange = fetch (sent_request this endpoint options useBearer)"
      and "exchange 1 = Resolved (Response 429 b1)"
      and "exchange 2 = Resolved (Response 429 b2)"
      and "exchange 3 = Resolved (Response 429 b3)"
      and "(classify 429 (errorData_of (Response 429 b3)) :: 'e thrown) = Kush k"
  shows "makeRequest this fetch endpoint options useBearer =
           (Inl (Kush k), [Fetch 1, Sleep 2000, Fetch 2, Sleep 4000, Fetch 3])"
    and "name k = RateLimitError" and "status k = Some 429"
  using rate_limit_three_attempts[of this exchange fetch endpoint options useBearer b1 b2 b3]
    assms classify_Kush[OF assms(6)]
  by (simp_all add: kind_of_def)

text \<open>
  Claim C1 fails on the code. With three attempts allowed and, on each, a 429 response
  whose body is the JSON value \<open>null\<close>, \<open>makeRequest\<close> makes three attempts and sleeps
  2000 ms and 4000 ms as claimed, but after the third attempt it throws the \<open>TypeError\<close>
  of reading \<open>errorData.error\<close> on \<open>null\<close>, and no RateLimitError.
\<close>

theorem rate_limit_null_body_throws_type_error:
  "makeRequest example_client
     (\<lambda>req n. Resolved (Response 429 (Some JNull)) :: unit fetch_result)
     (js ''/api/v1/messages'') example_options False =
   (Inl TypeError, [Fetch 1, Sleep 2000, Fetch 2, Sleep 4000, Fetch 3])"
  by (simp add: makeRequest_def makeRequest_loop.simps example_client_def try_block_def ok_def
        errorData_of_def classify_null_body no_retry_def after_def)

subsection \<open>Status 401 and 402\<close>

text \<open>
  When the first response has status 401 or 402 and is classified at all, \<open>makeRequest\<close>
  makes that one attempt, sleeps never and throws the AuthenticationError or
  InsufficientCreditsError of that response, whatever the number of attempts allowed.
\<close>

lemma auth_and_credit_errors_not_retried:
  fixes fetch :: "'f fetch_call \<Rightarrow> int \<Rightarrow> 'e fetch_result"
  assumes "1 \<le> retries this"
      and "exchange = fetch (sent_request this endpoint options useBearer)"
      and "exchange 1 = Resolved (Response st b)"
      and "st = 401 \<or> st = 402"
      and "(classify st (errorData_of (Response st b)) :: 'e thrown) = Kush k"
  shows "makeRequest this fetch endpoint options useBearer = (Inl (Kush k), [Fetch 1])"
    and "name k = (if st = 401 then AuthenticationError else InsufficientCreditsError)"
    and "status k = Some st"
proof -
  from classify_Kush[OF assms(5)] assms(4)
  show n: "name k = (if st = 401 then AuthenticationError else InsufficientCreditsError)"
    and "status k = Some st"
    by (auto simp: kind_of_def)
  from n have "no_retry (Kush k :: 'e thrown)"
    by (simp add: no_retry_def)
  with assms show "makeRequest this fetch endpoint options useBearer = (Inl (Kush k), [Fetch 1])"
    by (auto simp add: makeRequest_def makeRequest_loop.simps try_block_def ok_def)
qed

text \<open>
  Claim C2 fails on the code. With three attempts allowed and a 401 (or a 402) response
  whose body is the JSON value \<open>null\<close>, the \<open>TypeError\<close> of reading \<open>errorData.error\<close> on
  \<open>null\<close> lands in the \<open>catch\<close>, where it is neither an AuthenticationError nor an
  InsufficientCreditsError: \<open>makeRequest\<close> makes three attempts, sleeps 1000 ms and
  2000 ms between them and throws the \<open>TypeError\<close>.
\<close>

theorem auth_null_body_retried:
  "makeRequest example_client
     (\<lambda>req n. Resolved (Response 401 (Some JNull)) :: unit fetch_result)
     (js ''/api/v1/messages'') example_options False =
   (Inl TypeError, [Fetch 1, Sleep 1000, Fetch 2, Sleep 2000, Fetch 3])
   \<and> makeRequest example_client
     (\<lambda>req n. Resolved (Response 402 (Some JNull)) :: unit fetch_result)
     (js ''/api/v1/messages'') example_options False =
   (Inl TypeError, [Fetch 1, Sleep 1000, Fetch 2, Sleep 2000, Fetch 3])"
  by (simp add: makeRequest_def makeRequest_loop.simps example_client_def try_block_def ok_def
        errorData_of_def classify_null_body no_retry_def after_def)

subsection \<open>Generic failures\<close>

text \<open>
  Claim C3. With three attempts allowed and a generic failure on each (a status that is
  neither a success nor 401, 402 or 429, or a rejected \<open>fetch\<close> such as a timeout),
  \<open>makeRequest\<close> makes exactly three attempts, sleeps 1000 ms then 2000 ms between them
  and throws the error of the third attempt itself: the rejection reason of \<open>fetch\<close>, or
  what the third response is classified as (for a body other than \<open>null\<close>: the
  KushRouterError built from it, or the \<open>TypeError\<close> of a message without string form).
\<close>

theorem generic_failure_linear_backoff:
  fixes fetch :: "'f fetch_call \<Rightarrow> int \<Rightarrow> 'e fetch_result"
  assumes "retries this = 3"
      and "exchange = fetch (sent_request this endpoint options useBearer)"
      and "generic_failure (exchange 1)"
      and "generic_failure (exchange 2)"
      and "generic_failure (exchange 3)"
  shows "makeRequest this fetch endpoint options useBearer =
           (Inl (failure_of (exchange 3)), [Fetch 1, Sleep 1000, Fetch 2, Sleep 2000, Fetch 3])
         \<and> (\<forall>e. exchange 3 = Rejected e \<longrightarrow> failure_of (exchange 3) = FetchRejected e)
         \<and> (\<forall>st b. exchange 3 = Resolved (Response st b) \<longrightarrow> b \<noteq> Some JNull \<longrightarrow>
               failure_of (exchange 3) =
                 (case to_string
                    (case nested (errorData_of (Response st b)) (js ''message'') of
                       None \<Rightarrow> JStr (js ''HTTP '' @ show_nat st)
                     | Some v \<Rightarrow>
                         if truthy v then v else JStr (js ''HTTP '' @ show_nat st)) of
                    None \<Rightarrow> TypeError
                  | Some text \<Rightarrow>
                      Kush \<lparr>name = KushRouterError,
                            message = text,
                            status = Some st,
                            code = nested (errorData_of (Response st b)) (js ''type''),
                            details = None\<rparr>))"
proof (intro conjI allI impI)
  show "makeRequest this fetch endpoint options useBearer =
          (Inl (failure_of (exchange 3)), [Fetch 1, Sleep 1000, Fetch 2, Sleep 2000, Fetch 3])"
    using assms
    by (simp add: makeRequest_def makeRequest_loop.simps try_block_generic generic_retried
          after_def)
next
  fix e assume "exchange 3 = Rejected e"
  then show "failure_of (exchange 3) = FetchRejected e"
    by (simp add: failure_of_def)
next
  fix st b
  assume r: "exchange 3 = Resolved (Response st b)" and b: "b \<noteq> Some JNull"
  from assms(5) r have "generic_status st"
    by (simp add: generic_failure_def)
  then have "st \<noteq> 401" "st \<noteq> 402" "st \<noteq> 429"
    by (simp_all add: generic_status_def)
  then show "failure_of (exchange 3) =
               (case to_string
                  (case nested (errorData_of (Response st b)) (js ''message'') of
                     None \<Rightarrow> JStr (js ''HTTP '' @ show_nat st)
                   | Some v \<Rightarrow>
                       if truthy v then v else JStr (js ''HTTP '' @ show_nat st)) of
                  None \<Rightarrow> TypeError
                | Some text \<Rightarrow>
                    Kush \<lparr>name = KushRouterError,
                          message = text,
                          status = Some st,
                          code = nested (errorData_of (Response st b)) (js ''type''),
                          details = None\<rparr>)"
    using r classify_not_null[OF errorData_not_null[OF b], of st st, where ?'e = 'e]
    by (simp add: failure_of_def new_KushRouterError_def throw_new_def split: option.splits)
qed

text \<open>
  Witness for C3: two 500 responses, then a timeout whose rejection reason is 7; the
  reason of the third attempt is what is thrown.
\<close>

theorem generic_failure_linear_backoff_witness:
  "makeRequest example_client
     (\<lambda>req n. if n = 3 then Rejected (7 :: nat) else Resolved (Response 500 None))
     (js ''/api/v1/messages'') example_options False =
     (Inl (FetchRejected 7), [Fetch 1, Sleep 1000, Fetch 2, Sleep 2000, Fetch 3])"
  using generic_failure_linear_backoff
    [of example_client
        "\<lambda>n. if n = 3 then Rejected (7 :: nat) else Resolved (Response 500 None)"
        "\<lambda>req n. if n = 3 then Rejected (7 :: nat) else Resolved (Response 500 None)"
        "js ''/api/v1/messages''" example_options False]
  by (simp add: example_client_def generic_failure_def generic_status_def failure_of_def)

section \<open>Headers of an upload\<close>

text \<open>
  Claim C6 fails on the code: for a \<open>FormData\<close> upload, \<open>files.upload\<close> passes empty
  headers, and \<open>makeRequest\<close> still puts its default \<open>Content-Type: application/json\<close>
  into the request it sends.
\<close>

theorem upload_formdata_content_type:
  "call_headers (upload_request this (FormDataContent f) filename) (js ''Content-Type'')
     = Some (js ''application/json'')"
  by (simp add: upload_request_def sent_request_def request_headers_def upload_options_def
        js_def map_add_def)

text \<open>\<open>upload_request\<close> is the request every attempt of \<open>files.upload\<close> hands to \<open>fetch\<close>.\<close>

lemma files_upload_sends_upload_request:
  "files_upload this fetch content filename =
     makeRequest_loop (retries this) (fetch (upload_request this content filename)) 1 None"
  by (simp add: files_upload_def makeRequest_def upload_request_def)

text \<open>
  Every request whose options do not set a \<open>Content-Type\<close> of their own is sent with
  \<open>Content-Type: application/json\<close>.
\<close>

lemma default_content_type:
  assumes "case init_headers options of None \<Rightarrow> True | Some h \<Rightarrow> h (js ''Content-Type'') = None"
  shows "call_headers (sent_request this endpoint options useBearer) (js ''Content-Type'')
           = Some (js ''application/json'')"
  using assms
  by (auto simp add: sent_request_def request_headers_def js_def map_add_def
        split: option.splits)

section \<open>Field normalisation keeps a set wire-form value\<close>

lemma rename_field_frame:
  "k \<noteq> camel \<Longrightarrow> k \<noteq> snake \<Longrightarrow> rename_field camel snake r k = r k"
  by (simp add: rename_field_def)

lemma rename_all_frame:
  "k \<notin> fst ` set fs \<Longrightarrow> k \<notin> snd ` set fs \<Longrightarrow> rename_all fs r k = r k"
  by (induction fs arbitrary: r) (auto simp: rename_field_frame)

lemma rename_field_hit:
  assumes "camel \<noteq> snake" and "get r camel \<noteq> Undefined"
  shows "rename_field camel snake r camel = None"
    and "rename_field camel snake r snake = Some (nullish (get r snake) (get r camel))"
  using assms by (simp_all add: rename_field_def)

text \<open>
  The blocks of a normaliser do not interfere when all their keys differ: the block of
  a pair sees the values the request came with.
\<close>

lemma rename_all_hit:
  assumes "distinct (map fst fs @ map snd fs)" and "(camel, snake) \<in> set fs"
      and "get r camel \<noteq> Undefined"
  shows "rename_all fs r camel = None \<and>
         rename_all fs r snake = Some (nullish (get r snake) (get r camel))"
  using assms
proof (induction fs arbitrary: r)
  case Nil
  then show ?case by simp
next
  case (Cons f fs)
  obtain c s where f: "f = (c, s)" by (cases f)
  show ?case
  proof (cases "(camel, snake) = (c, s)")
    case True
    with Cons.prems f have "camel \<noteq> snake"
      and "camel \<notin> fst ` set fs" "camel \<notin> snd ` set fs"
      and "snake \<notin> fst ` set fs" "snake \<notin> snd ` set fs"
      by auto
    with True f Cons.prems(3) show ?thesis
      by (simp add: rename_all_frame rename_field_hit)
  next
    case False
    with Cons.prems f have mem: "(camel, snake) \<in> set fs" by auto
    then have "camel \<in> fst ` set fs" "snake \<in> snd ` set fs" by force+
    with Cons.prems(1) f have "camel \<noteq> c" "camel \<noteq> s" "snake \<noteq> c" "snake \<noteq> s"
      by auto
    then have same: "get (rename_field c s r) camel = get r camel"
                    "get (rename_field c s r) snake = get r snake"
      by (simp_all add: get_def rename_field_frame)
    from Cons.prems(1) f have d: "distinct (map fst fs @ map snd fs)" by auto
    from Cons.IH[OF d mem, of "rename_field c s r"] same Cons.prems(3) f
    show ?thesis by simp
  qed
qed

text \<open>A pair whose camelCase value is \<open>undefined\<close> or missing is left as it came.\<close>

lemma rename_all_miss:
  assumes "distinct (map fst fs @ map snd fs)" and "(camel, snake) \<in> set fs"
      and "get r camel = Undefined"
  shows "rename_all fs r camel = r camel \<and> rename_all fs r snake = r snake"
  using assms
proof (induction fs arbitrary: r)
  case Nil
  then show ?case by simp
next
  case (Cons f fs)
  obtain c s where f: "f = (c, s)" by (cases f)
  show ?case
  proof (cases "(camel, snake) = (c, s)")
    case True
    with Cons.prems f have "camel \<notin> fst ` set fs" "camel \<notin> snd ` set fs"
      and "snake \<notin> fst ` set fs" "snake \<notin> snd ` set fs"
      by auto
    with True f Cons.prems(3) show ?thesis
      by (simp add: rename_all_frame rename_field_def)
  next
    case False
    with Cons.prems f have mem: "(camel, snake) \<in> set fs" by auto
    then have "camel \<in> fst ` set fs" "snake \<in> snd ` set fs" by force+
    with Cons.prems(1) f have "camel \<noteq> c" "camel \<noteq> s" "snake \<noteq> c" "snake \<noteq> s"
      by auto
    then have same: "rename_field c s r camel = r camel" "rename_field c s r snake = r snake"
      by (simp_all add: rename_field_frame)
    then have u: "get (rename_field c s r) camel = Undefined"
      using Cons.prems(3) by (simp add: get_def)
    from Cons.prems(1) f have d: "distinct (map fst fs @ map snd fs)" by auto
    from Cons.IH[OF d mem u] same f show ?thesis by simp
  qed
qed

lemma unified_fields_distinct: "distinct (map fst unified_fields @ map snd unified_fields)"
  by (simp add: unified_fields_def js_def)

lemma openai_fields_distinct: "distinct (map fst openai_fields @ map snd openai_fields)"
  by (simp add: openai_fields_def js_def)

text \<open>
  Claim C7, as the code has it. For each field pair of either normaliser and every
  request object whose camelCase value is not \<open>undefined\<close>: the camelCase key is
  removed; a wire-form value that is neither \<open>null\<close> nor \<open>undefined\<close> is kept
  unchanged; and the camelCase value is used when the wire-form value is missing,
  \<open>undefined\<close> or \<open>null\<close>.
\<close>

theorem normalize_wire_form_preserved:
  assumes "(camel, snake) \<in> set unified_fields \<and> norm = normalizeUnifiedRequest
         \<or> (camel, snake) \<in> set openai_fields \<and> norm = normalizeOpenAIRequest"
      and "get r camel \<noteq> Undefined"
  shows "field_of (norm (Object r :: ('p, 'v) request)) camel = None
       \<and> (\<forall>w. get r snake = Val w \<longrightarrow> field_of (norm (Object r)) snake = Some (Val w))
       \<and> (get r snake = Undefined \<or> get r snake = Null \<longrightarrow>
            field_of (norm (Object r)) snake = Some (get r camel))"
  using assms rename_all_hit[OF unified_fields_distinct, of camel snake r]
    rename_all_hit[OF openai_fields_distinct, of camel snake r]
  by (auto simp add: field_of_def normalizeUnifiedRequest_def normalizeOpenAIRequest_def
        nullish_def)

text \<open>Witness for C7: \<open>{maxTokens: 100, max_tokens: 50}\<close> becomes \<open>{max_tokens: 50}\<close>.\<close>

theorem normalize_wire_form_preserved_witness:
  "field_of (normalizeUnifiedRequest
      (Object [js ''maxTokens'' \<mapsto> Val 100, js ''max_tokens'' \<mapsto> Val 50]
        :: (unit, nat) request)) (js ''maxTokens'') = None
   \<and> field_of (normalizeUnifiedRequest
      (Object [js ''maxTokens'' \<mapsto> Val 100, js ''max_tokens'' \<mapsto> Val 50]
        :: (unit, nat) request)) (js ''max_tokens'') = Some (Val 50)"
  using normalize_wire_form_preserved
    [of "js ''maxTokens''" "js ''max_tokens''"
        "normalizeUnifiedRequest :: (unit, nat) request \<Rightarrow> (unit, nat) request"
        "[js ''maxTokens'' \<mapsto> Val 100, js ''max_tokens'' \<mapsto> Val (50 :: nat)]"]
  by (simp add: unified_fields_def get_def js_def)

text \<open>
  Counterexample to C7 as stated: in \<open>{maxTokens: 100, max_tokens: null}\<close> the wire-form
  key is present with a value that differs from the camelCase one, and normalisation
  replaces it by the camelCase value.
\<close>

theorem normalize_null_wire_form_overwritten:
  "field_of (Object [js ''maxTokens'' \<mapsto> Val 100, js ''max_tokens'' \<mapsto> Null]
      :: (unit, nat) request) (js ''max_tokens'') = Some Null
   \<and> field_of (normalizeUnifiedRequest
        (Object [js ''maxTokens'' \<mapsto> Val 100, js ''max_tokens'' \<mapsto> Null]
          :: (unit, nat) request)) (js ''max_tokens'') = Some (Val 100)"
  by (simp add: field_of_def normalizeUnifiedRequest_def unified_fields_def rename_field_def
        get_def nullish_def js_def)

section \<open>The stream decoder reads complete lines\<close>

subsection \<open>Splitting at newlines\<close>

lemma split_acc_not_Nil: "split_acc cur s \<noteq> []"
  by (induction s arbitrary: cur) auto

lemma split_acc_append:
  "split_acc cur (a @ b) = butlast (split_acc cur a) @ split_acc (last (split_acc cur a)) b"
  by (induction a arbitrary: cur) (auto simp: split_acc_not_Nil)

lemma split_acc_no_newline: "10 \<notin> set r \<Longrightarrow> split_acc cur r = [cur @ r]"
  by (induction r arbitrary: cur) auto

lemma split_acc_shift: "10 \<notin> set cur \<Longrightarrow> split_acc acc (cur @ s) = split_acc (acc @ cur) s"
  by (induction cur arbitrary: acc) auto

lemma last_split_acc_no_newline: "10 \<notin> set cur \<Longrightarrow> 10 \<notin> set (last (split_acc cur s))"
  by (induction s arbitrary: cur) (auto simp: split_acc_not_Nil)

lemma split_nl_not_Nil: "split_nl s \<noteq> []"
  by (simp add: split_nl_def split_acc_not_Nil)

lemma last_split_nl_no_newline: "10 \<notin> set (last (split_nl s))"
  by (simp add: split_nl_def last_split_acc_no_newline)

lemma split_nl_no_newline: "10 \<notin> set r \<Longrightarrow> split_nl r = [r]"
  by (simp add: split_nl_def split_acc_no_newline)

text \<open>
  Splitting a text in two pieces: the complete lines of the first piece, then the split
  of its unfinished last line followed by the second piece. This is what carrying
  \<open>buffer\<close> from one read to the next computes.
\<close>

lemma split_nl_append:
  "split_nl (a @ b) = butlast (split_nl a) @ split_nl (last (split_nl a) @ b)"
  using split_acc_append[of "[]" a b] split_acc_shift[OF last_split_nl_no_newline, of "[]" a b]
  by (simp add: split_nl_def)

lemma split_nl_newline: "split_nl (a @ 10 # b) = split_nl a @ split_nl b"
proof -
  have "split_nl (a @ 10 # b) = butlast (split_nl a) @ split_acc (last (split_nl a)) (10 # b)"
    using split_acc_append[of "[]" a "10 # b"] by (simp add: split_nl_def)
  also have "\<dots> = butlast (split_nl a) @ [last (split_nl a)] @ split_nl b"
    by (simp add: split_nl_def)
  finally show ?thesis by (simp add: split_nl_not_Nil)
qed

lemma complete_lines_append:
  "complete_lines (a @ b) = complete_lines a @ complete_lines (last (split_nl a) @ b)"
  by (simp add: complete_lines_def split_nl_append[of a b] butlast_append split_nl_not_Nil)

lemma complete_lines_no_newline: "10 \<notin> set r \<Longrightarrow> complete_lines r = []"
  by (simp add: complete_lines_def split_nl_no_newline)

lemma complete_lines_newline: "complete_lines (a @ 10 # b) = split_nl a @ complete_lines b"
  by (simp add: complete_lines_def split_nl_newline butlast_append split_nl_not_Nil)

lemma complete_lines_after_newline:
  assumes "pre = [] \<or> last pre = 10"
  shows "complete_lines (pre @ s) = complete_lines pre @ complete_lines s"
proof (cases "pre = []")
  case True
  then show ?thesis by (simp add: complete_lines_no_newline)
next
  case False
  with assms obtain a where a: "pre = a @ [10]"
    by (metis append_butlast_last_id)
  have "complete_lines pre = split_nl a"
    using complete_lines_newline[of a "[]"] a by (simp add: complete_lines_no_newline)
  then show ?thesis
    using complete_lines_newline[of a s] a by simp
qed

subsection \<open>The loop over the lines\<close>

lemma process_lines_append:
  "process_lines parse (xs @ ys) =
     (if snd (process_lines parse xs) then process_lines parse xs
      else (fst (process_lines parse xs) @ fst (process_lines parse ys),
            snd (process_lines parse ys)))"
  by (induction xs) (auto simp: Let_def split: option.splits)

lemma process_lines_discarded:
  assumes "prefix (js ''data: '') line"
      and "trim (drop 6 line) \<noteq> js ''[DONE]''"
      and "parse (trim (drop 6 line)) = None"
  shows "process_lines parse (line # rest) = process_lines parse rest"
  using assms by simp

lemma process_lines_no_done:
  "\<forall>l \<in> set ls. \<not> done_line l \<Longrightarrow>
   process_lines parse ls = (List.map_filter (frame_of parse) ls, False)"
  by (induction ls)
     (auto simp: done_line_def frame_of_def List.map_filter_simps Let_def split: option.splits)

subsection \<open>The read loop\<close>

text \<open>
  However the text arrives in chunks, the read loop runs the loop over the lines once
  over the complete lines of the whole text, in order, as long as the buffer it starts
  from holds no newline.
\<close>

lemma read_loop_complete_lines:
  "10 \<notin> set buffer \<Longrightarrow>
   read_loop parse buffer chunks =
     finish (process_lines parse (complete_lines (buffer @ concat chunks)))"
proof (induction chunks arbitrary: buffer)
  case Nil
  then show ?case by (simp add: complete_lines_no_newline finish_def)
next
  case (Cons chunk chunks)
  let ?lines = "split_nl (buffer @ chunk)"
  have ih: "read_loop parse (last ?lines) chunks =
              finish (process_lines parse (complete_lines (last ?lines @ concat chunks)))"
    by (rule Cons.IH) (rule last_split_nl_no_newline)
  have cl: "complete_lines (buffer @ concat (chunk # chunks)) =
              butlast ?lines @ complete_lines (last ?lines @ concat chunks)"
    using complete_lines_append[of "buffer @ chunk" "concat chunks"]
    by (simp add: complete_lines_def)
  show ?case
    by (simp only: cl process_lines_append read_loop.simps)
       (simp add: ih split_nl_not_Nil finish_def Let_def split: prod.splits)
qed

lemma stream_frames_complete_lines:
  "stream_frames parse chunks = finish (process_lines parse (complete_lines (concat chunks)))"
  using read_loop_complete_lines[of "[]" parse chunks] by (simp add: stream_frames_def)

subsection \<open>The decoding example\<close>

lemma complete_lines_example:
  "complete_lines sse_example =
     [js ''data: {\"a\":1}'', [], js ''data: {\"a\":2}'', [], js ''data: [DONE]'', []]"
  by (simp add: complete_lines_def split_nl_def sse_example_def js_def)

lemma process_lines_example:
  assumes "parse (js ''{\"a\":1}'') = Some f1" and "parse (js ''{\"a\":2}'') = Some f2"
  shows "process_lines parse
           [js ''data: {\"a\":1}'', [], js ''data: {\"a\":2}'', [], js ''data: [DONE]'', []]
         = ([f1, f2], True)"
proof -
  have t: "trim (drop 6 (js ''data: {\"a\":1}'')) = js ''{\"a\":1}''"
          "trim (drop 6 (js ''data: {\"a\":2}'')) = js ''{\"a\":2}''"
          "trim (drop 6 (js ''data: [DONE]'')) = js ''[DONE]''"
    by (simp_all add: js_def trim_def is_space_def)
  have p: "prefix (js ''data: '') (js ''data: {\"a\":1}'')"
          "prefix (js ''data: '') (js ''data: {\"a\":2}'')"
          "prefix (js ''data: '') (js ''data: [DONE]'')"
          "js ''data: '' \<noteq> []"
    by (simp_all add: js_def)
  have n: "js ''{\"a\":1}'' \<noteq> js ''[DONE]''" "js ''{\"a\":2}'' \<noteq> js ''[DONE]''"
    by (simp_all add: js_def)
  show ?thesis
    using assms by (simp add: t p n)
qed

text \<open>
  Claim C4. Whatever the offset \<open>k\<close> at which the example text is cut into two chunks,
  the decoder yields the parsed first frame, then the parsed second frame, and returns
  at the \<open>[DONE]\<close> line, which it never hands to \<open>JSON.parse\<close> nor yields.
\<close>

theorem sse_example_split_anywhere:
  assumes "parse (js ''{\"a\":1}'') = Some f1" and "parse (js ''{\"a\":2}'') = Some f2"
  shows "stream_frames parse [take k sse_example, drop k sse_example] = ([f1, f2], SawDone)"
  using process_lines_example[OF assms]
  by (simp add: stream_frames_complete_lines complete_lines_example finish_def)

text \<open>Witness for C4: the cut after ten code units, in the middle of the first line.\<close>

theorem sse_example_split_anywhere_witness:
  "stream_frames example_parse [take 10 sse_example, drop 10 sse_example] =
     ([JObj [(js ''a'', JNum (js ''1''))], JObj [(js ''a'', JNum (js ''2''))]], SawDone)"
  using sse_example_split_anywhere
    [of example_parse "JObj [(js ''a'', JNum (js ''1''))]" "JObj [(js ''a'', JNum (js ''2''))]" 10]
  by (simp add: example_parse_def js_def)

text \<open>The same holds for any number of chunks that make up the example text.\<close>

lemma sse_example_any_chunking:
  assumes "parse (js ''{\"a\":1}'') = Some f1" and "parse (js ''{\"a\":2}'') = Some f2"
      and "concat chunks = sse_example"
  shows "stream_frames parse chunks = ([f1, f2], SawDone)"
  using process_lines_example[OF assms(1,2)] assms(3)
  by (simp add: stream_frames_complete_lines complete_lines_example finish_def)

subsection \<open>Malformed lines, the end of the source, the unfinished last line\<close>

text \<open>
  Claim C8. Let \<open>line\<close> be a complete line of the stream (it follows the start of the
  text or a newline, and a newline follows it) that starts with \<open>data: \<close> and whose
  trimmed payload is not \<open>[DONE]\<close> and is rejected by \<open>JSON.parse\<close>. Then the decoder
  yields and ends exactly as it does on the text without that line, however either
  text is cut into chunks.
\<close>

theorem malformed_line_skipped:
  assumes "prefix (js ''data: '') line" and "10 \<notin> set line"
      and "trim (drop 6 line) \<noteq> js ''[DONE]''"
      and "parse (trim (drop 6 line)) = None"
      and "pre = [] \<or> last pre = 10"
      and "concat chunks = pre @ line @ [10] @ post"
      and "concat chunks' = pre @ post"
  shows "stream_frames parse chunks = stream_frames parse chunks'"
proof -
  have "complete_lines (line @ 10 # post) = line # complete_lines post"
    using assms(2) by (simp add: complete_lines_newline split_nl_no_newline)
  then have "complete_lines (concat chunks) = complete_lines pre @ line # complete_lines post"
    using assms(5,6) by (simp add: complete_lines_after_newline)
  moreover have "complete_lines (concat chunks') = complete_lines pre @ complete_lines post"
    using assms(5,7) by (simp add: complete_lines_after_newline)
  moreover have "process_lines parse (line # complete_lines post) =
                   process_lines parse (complete_lines post)"
    using assms(1,3,4) by (rule process_lines_discarded)
  ultimately show ?thesis
    by (simp only: stream_frames_complete_lines process_lines_append)
qed

text \<open>
  Witness for C8: the line \<open>data: not-json\<close> between two frames, the text with it cut
  in the middle of that line.
\<close>

theorem malformed_line_skipped_witness:
  "stream_frames example_parse
     [js ''data: {\"a\":1}\<newline>data: not'', js ''-json\<newline>\<newline>data: {\"a\":2}\<newline>'']
   = stream_frames example_parse [js ''data: {\"a\":1}\<newline>\<newline>data: {\"a\":2}\<newline>'']"
  using malformed_line_skipped
    [of "js ''data: not-json''" example_parse "js ''data: {\"a\":1}\<newline>''"
        "[js ''data: {\"a\":1}\<newline>data: not'', js ''-json\<newline>\<newline>data: {\"a\":2}\<newline>'']"
        "js ''\<newline>data: {\"a\":2}\<newline>''"
        "[js ''data: {\"a\":1}\<newline>\<newline>data: {\"a\":2}\<newline>'']"]
  by (simp add: js_def trim_def is_space_def example_parse_def)

text \<open>
  Claim C9. When no complete line of the text is a \<open>[DONE]\<close> line, the decoder ends
  by the reader's end of input, without an error, having yielded the frame of every
  complete line that has one, in the order of the lines.
\<close>

theorem stream_without_done_ends_cleanly:
  assumes "\<forall>l \<in> set (complete_lines (concat chunks)). \<not> done_line l"
  shows "stream_frames parse chunks =
           (List.map_filter (frame_of parse) (complete_lines (concat chunks)), SourceEnded)"
  using process_lines_no_done[OF assms, of parse]
  by (simp add: stream_frames_complete_lines finish_def)

text \<open>Witness for C9: two frames in two chunks and no sentinel.\<close>

theorem stream_without_done_ends_cleanly_witness:
  "stream_frames example_parse [js ''data: {\"a\":1}\<newline>\<newline>da'', js ''ta: {\"a\":2}\<newline>\<newline>'']
   = ([JObj [(js ''a'', JNum (js ''1''))], JObj [(js ''a'', JNum (js ''2''))]], SourceEnded)"
  using stream_without_done_ends_cleanly
    [of "[js ''data: {\"a\":1}\<newline>\<newline>da'', js ''ta: {\"a\":2}\<newline>\<newline>'']" example_parse]
  by (simp add: js_def complete_lines_def split_nl_def done_line_def frame_of_def
        List.map_filter_simps trim_def is_space_def example_parse_def)

text \<open>
  Claim C10. What follows the last newline of the text when the source ends is dropped:
  the decoder yields and ends as it does on the text before that residue, so the
  residue is neither parsed nor yielded, even when it is a well-formed \<open>data: \<close> line
  that only lacks its newline.
\<close>

theorem residual_line_discarded:
  assumes "10 \<notin> set residual" and "concat chunks = body @ residual"
  shows "stream_frames parse chunks = stream_frames parse [body]"
proof -
  have "complete_lines (body @ residual) = complete_lines body"
    using complete_lines_append[of body residual] last_split_nl_no_newline[of body] assms(1)
    by (simp add: complete_lines_no_newline)
  then show ?thesis
    using assms(2) by (simp add: stream_frames_complete_lines)
qed

text \<open>
  Witness for C10: the second frame arrives whole but without a newline after it, and
  only the first frame is yielded.
\<close>

theorem residual_line_discarded_witness:
  "stream_frames example_parse [js ''data: {\"a\":1}\<newline>\<newline>data: {\"a\"'', js '':2}'']
   = ([JObj [(js ''a'', JNum (js ''1''))]], SourceEnded)"
  using residual_line_discarded
    [of "js ''data: {\"a\":2}''" "[js ''data: {\"a\":1}\<newline>\<newline>data: {\"a\"'', js '':2}'']"
        "js ''data: {\"a\":1}\<newline>\<newline>''" example_parse]
  by (simp add: js_def)
     (simp add: stream_frames_def split_nl_def trim_def is_space_def example_parse_def js_def)

end
